theory Spec2Isabelle
  imports Main
begin

section \<open>The Gardin query API sample client\<close>

text \<open>
  A shallow embedding of \<^verbatim>\<open>gardin_api_query_example.py\<close>. The script talks to a remote
  service through the \<^verbatim>\<open>requests\<close> library, sleeps, reads the wall clock and writes one
  file. Those effects are made explicit:
  \<^item> the remote side and the clock are parameters (\<open>net\<close>, \<open>now\<close>) that see the whole history
    of the run so far;
  \<^item> the history is a trace of events kept in the state, together with the file system;
  \<^item> every exception is a value of type \<open>exn\<close>, and a function that may raise returns
    \<open>exn + 'a\<close>;
  \<^item> the polling loop may run forever, so it is a partial function into \<open>option\<close>, where
    \<open>None\<close> means that the call never returns.
  Python \<^verbatim>\<open>str\<close> values are represented by their UTF-8 bytes, so \<^verbatim>\<open>encode('utf-8')\<close> and
  \<^verbatim>\<open>decode('utf-8')\<close> are the identity. The terminal is not modelled:
  neither what \<^verbatim>\<open>print\<close> writes, nor its failure on a \<^verbatim>\<open>str\<close> that the terminal's encoding
  cannot take (a lone surrogate, which has no UTF-8 bytes and so no value in this model).
\<close>

subsection \<open>Values\<close>

text \<open>
  What \<^verbatim>\<open>json.loads\<close> returns. A dict is the list of its items (keys are unique, so
  \<open>map_of\<close> is the lookup). Numbers are integers: the program never inspects one.
\<close>

datatype json =
    JNull
  | JBool bool
  | JNum int
  | JStr string
  | JArr "json list"
  | JObj "(string \<times> json) list"

text \<open>
  An f-string is kept as its parts: literal text and interpolated values. For a value that
  is a \<^verbatim>\<open>str\<close> the interpolation is the string itself.
\<close>

datatype part = Lit string | Val json

type_synonym fstring = "part list"

datatype exn =
    RuntimeError string
  | JSONDecodeError
  | AttributeError
  | RequestException

subsection \<open>HTTP, as the requests library shows it\<close>

datatype meth = GET | POST

datatype payload = Form "(string \<times> string) list" | Body string

record request =
  rq_method :: meth
  rq_url :: fstring
  rq_headers :: "(string \<times> fstring) list"
  rq_data :: "payload option"

text \<open>
  A response: \<open>text_json\<close> is \<^verbatim>\<open>response.text\<close> as \<^verbatim>\<open>json.loads\<close> reads it (\<open>None\<close> when the
  text is not a JSON document), \<open>content\<close> the raw bytes of the body.
\<close>

record response =
  status_code :: nat
  reason :: string
  text_json :: "json option"
  content :: string

datatype event =
    Request request
  | Sleep nat
  | Write string string

record world =
  trace :: "event list"
  files :: "string \<rightharpoonup> string"

type_synonym reply = "exn + response"

text \<open>The remote side: the reply to a request, given everything that happened before.\<close>

type_synonym net = "event list \<Rightarrow> request \<Rightarrow> reply"

text \<open>The clock: \<^verbatim>\<open>int(time())\<close>, given everything that happened before.\<close>

type_synonym clock = "event list \<Rightarrow> int"

definition send :: "net \<Rightarrow> request \<Rightarrow> world \<Rightarrow> reply \<times> world" where
  "send net rq s = (net (trace s) rq, s\<lparr>trace := trace s @ [Request rq]\<rparr>)"

definition requests_post ::
  "net \<Rightarrow> fstring \<Rightarrow> (string \<times> fstring) list \<Rightarrow> payload \<Rightarrow> world \<Rightarrow> reply \<times> world" where
  "requests_post net u hs d s =
     send net \<lparr>rq_method = POST, rq_url = u, rq_headers = hs, rq_data = Some d\<rparr> s"

definition requests_get ::
  "net \<Rightarrow> fstring \<Rightarrow> (string \<times> fstring) list \<Rightarrow> world \<Rightarrow> reply \<times> world" where
  "requests_get net u hs s =
     send net \<lparr>rq_method = GET, rq_url = u, rq_headers = hs, rq_data = None\<rparr> s"

text \<open>
  \<^verbatim>\<open>Response.ok\<close> of the requests library: true unless \<^verbatim>\<open>raise_for_status\<close> raises, which
  it does for a status code from 400 to 599.
\<close>

definition ok :: "response \<Rightarrow> bool" where
  "ok r = (\<not> (400 \<le> status_code r \<and> status_code r < 600))"

definition sleep :: "nat \<Rightarrow> world \<Rightarrow> world" where
  "sleep secs s = s\<lparr>trace := trace s @ [Sleep secs]\<rparr>"

definition json_loads :: "json option \<Rightarrow> exn + json" where
  "json_loads t = (case t of None \<Rightarrow> Inl JSONDecodeError | Some j \<Rightarrow> Inr j)"

text \<open>\<^verbatim>\<open>d.get(key, default)\<close>: only a dict has the method.\<close>

fun dict_get :: "json \<Rightarrow> string \<Rightarrow> json \<Rightarrow> exn + json" where
  "dict_get (JObj kvs) k d = Inr (case map_of kvs k of None \<Rightarrow> d | Some v \<Rightarrow> v)"
| "dict_get _ k d = Inl AttributeError"

subsection \<open>Decimal numerals and base64\<close>

text \<open>\<^verbatim>\<open>str\<close> of an integer: its decimal digits, with a sign when it is negative.\<close>

definition digit :: "nat \<Rightarrow> char" where
  "digit d = ''0123456789'' ! d"

function str_nat :: "nat \<Rightarrow> string" where
  "str_nat n = (if n < 10 then [digit n] else str_nat (n div 10) @ [digit (n mod 10)])"
  by pat_completeness auto
termination
  by (relation "measure id") auto

definition str_int :: "int \<Rightarrow> string" where
  "str_int i = (if i < 0 then CHR ''-'' # str_nat (nat (- i)) else str_nat (nat i))"

definition b64_alphabet :: string where
  "b64_alphabet = ''ABCDEFGHIJKLMNOPQRSTUVWXYZabcdefghijklmnopqrstuvwxyz0123456789+/''"

definition b64_char :: "nat \<Rightarrow> char" where
  "b64_char n = b64_alphabet ! n"

definition b64_index :: "char \<Rightarrow> nat option" where
  "b64_index c = map_of (zip b64_alphabet [0..<64]) c"

text \<open>\<^verbatim>\<open>base64.b64encode\<close>: three bytes become four characters, the tail is padded.\<close>

fun b64encode :: "string \<Rightarrow> string" where
  "b64encode [] = []"
| "b64encode [a] =
     (let x = (of_char a :: nat)
      in [b64_char (x div 4), b64_char ((x mod 4) * 16), CHR ''='', CHR ''=''])"
| "b64encode [a, b] =
     (let x = (of_char a :: nat); y = (of_char b :: nat)
      in [b64_char (x div 4), b64_char ((x mod 4) * 16 + y div 16),
          b64_char ((y mod 16) * 4), CHR ''=''])"
| "b64encode (a # b # c # bs) =
     (let x = (of_char a :: nat); y = (of_char b :: nat); z = (of_char c :: nat)
      in [b64_char (x div 4), b64_char ((x mod 4) * 16 + y div 16),
          b64_char ((y mod 16) * 4 + z div 64), b64_char (z mod 64)] @ b64encode bs)"

text \<open>
  The decoder of RFC 4648 for padded input: four characters become three bytes, the last
  group may end in one or two \<^verbatim>\<open>=\<close>. \<open>None\<close> is a decoding error.
\<close>

fun b64decode :: "string \<Rightarrow> string option" where
  "b64decode [] = Some []"
| "b64decode (w # x # y # z # cs) =
     (if cs = [] \<and> z = CHR ''='' then
        (if y = CHR ''='' then
           (case (b64_index w, b64_index x) of
              (Some p, Some q) \<Rightarrow> Some [char_of (p * 4 + q div 16)]
            | _ \<Rightarrow> None)
         else
           (case (b64_index w, b64_index x, b64_index y) of
              (Some p, Some q, Some r) \<Rightarrow>
                Some [char_of (p * 4 + q div 16), char_of ((q mod 16) * 16 + r div 4)]
            | _ \<Rightarrow> None))
      else
        (case (b64_index w, b64_index x, b64_index y, b64_index z) of
           (Some p, Some q, Some r, Some t) \<Rightarrow>
             (case b64decode cs of
                None \<Rightarrow> None
              | Some bs \<Rightarrow>
                  Some (char_of (p * 4 + q div 16) # char_of ((q mod 16) * 16 + r div 4)
                        # char_of ((r mod 4) * 64 + t) # bs))
         | _ \<Rightarrow> None))"
| "b64decode _ = None"

subsection \<open>The script\<close>

definition QUERY_STATUS_POLLING_WAIT_SECS :: nat where
  "QUERY_STATUS_POLLING_WAIT_SECS = 10"

definition CSV_DOWNLOAD_PATH_PREFIX :: string where
  "CSV_DOWNLOAD_PATH_PREFIX = ''gardin_query_api_results_''"

definition check_api_response :: "response \<Rightarrow> string \<Rightarrow> exn + unit" where
  "check_api_response response action =
     (if \<not> ok response then Inl (RuntimeError (''API request failed: '' @ reason response))
      else Inr ())"

text \<open>The headers and the request that \<^verbatim>\<open>get_auth_token\<close> builds from the credentials.\<close>

definition auth_headers :: "string \<Rightarrow> string \<Rightarrow> (string \<times> fstring) list" where
  "auth_headers client_id client_secret =
     (let credentials = client_id @ '':'' @ client_secret;
          encoded_credentials = b64encode credentials
      in [(''Authorization'', [Lit ''Basic '', Lit encoded_credentials]),
          (''Content-Type'', [Lit ''application/x-www-form-urlencoded''])])"

definition get_auth_token :: "net \<Rightarrow> string \<Rightarrow> string \<Rightarrow> world \<Rightarrow> (exn + json) \<times> world" where
  "get_auth_token net client_id client_secret s =
     (let login_url = [Lit ''https://login.gardin.ag/oauth2/token''];
          auth_payload = [(''grant_type'', ''client_credentials'')]
      in case requests_post net login_url (auth_headers client_id client_secret)
                (Form auth_payload) s of
           (Inl e, s1) \<Rightarrow> (Inl e, s1)
         | (Inr response, s1) \<Rightarrow>
             (case check_api_response response ''Get Authentication token'' of
                Inl e \<Rightarrow> (Inl e, s1)
              | Inr _ \<Rightarrow>
                  (case json_loads (text_json response) of
                     Inl e \<Rightarrow> (Inl e, s1)
                   | Inr j \<Rightarrow> (dict_get j ''access_token'' (JStr ''''), s1))))"

text \<open>\<^verbatim>\<open>json.dumps(query_payload)\<close>, the body that \<^verbatim>\<open>submit_query\<close> posts.\<close>

definition query_payload :: string where
  "query_payload =
     [CHR ''{'', CHR 0x22] @ ''type'' @ [CHR 0x22] @ '': '' @ [CHR 0x22] @ ''indices'' @ [CHR 0x22]
     @ '', '' @ [CHR 0x22] @ ''filters'' @ [CHR 0x22] @ '': {'' @ [CHR 0x22] @ ''from'' @ [CHR 0x22]
     @ '': '' @ [CHR 0x22] @ ''2024-12-01T17:32:28Z'' @ [CHR 0x22] @ '', '' @ [CHR 0x22] @ ''to''
     @ [CHR 0x22] @ '': '' @ [CHR 0x22] @ ''2024-12-30T00:23:46Z'' @ [CHR 0x22] @ ''}}''"

definition submit_query ::
  "net \<Rightarrow> json \<Rightarrow> (string \<times> fstring) list \<Rightarrow> world \<Rightarrow> (exn + json) \<times> world" where
  "submit_query net token headers s =
     (let query_url = [Lit ''https://api.gardin.ag/v1/query'']
      in case requests_post net query_url headers (Body query_payload) s of
           (Inl e, s1) \<Rightarrow> (Inl e, s1)
         | (Inr response, s1) \<Rightarrow>
             (case check_api_response response ''Execute Query'' of
                Inl e \<Rightarrow> (Inl e, s1)
              | Inr _ \<Rightarrow>
                  (case json_loads (text_json response) of
                     Inl e \<Rightarrow> (Inl e, s1)
                   | Inr j \<Rightarrow> (dict_get j ''queryId'' (JStr ''''), s1))))"

text \<open>
  Line 115 of \<^verbatim>\<open>monitor_query_status\<close>, the status that one poll reads out of a response:
  \<^verbatim>\<open>json.loads(response.text).get('status', 'NO_STATUS_RETURNED')\<close>.
\<close>

definition response_status :: "response \<Rightarrow> exn + json" where
  "response_status response =
     (case json_loads (text_json response) of
        Inl e \<Rightarrow> Inl e
      | Inr j \<Rightarrow> dict_get j ''status'' (JStr ''NO_STATUS_RETURNED''))"

text \<open>The \<^verbatim>\<open>while True\<close> loop of \<^verbatim>\<open>monitor_query_status\<close>; \<open>None\<close> when it never returns.\<close>

partial_function (option) monitor_loop ::
  "net \<Rightarrow> fstring \<Rightarrow> (string \<times> fstring) list \<Rightarrow> world \<Rightarrow> ((exn + bool) \<times> world) option" where
  "monitor_loop net status_url headers s =
     (case requests_get net status_url headers s of
        (Inl e, s1) \<Rightarrow> Some (Inl e, s1)
      | (Inr response, s1) \<Rightarrow>
          (case check_api_response response ''Get Processing status'' of
             Inl e \<Rightarrow> Some (Inl e, s1)
           | Inr _ \<Rightarrow>
               (case response_status response of
                  Inl e \<Rightarrow> Some (Inl e, s1)
                | Inr status \<Rightarrow>
                    if status \<in> set [JStr ''SUBMITTED'', JStr ''IN_PROGRESS'', JStr ''RUNNING'']
                    then monitor_loop net status_url headers
                           (sleep QUERY_STATUS_POLLING_WAIT_SECS s1)
                    else if status = JStr ''COMPLETED'' then Some (Inr True, s1)
                    else if status \<in> set [JStr ''FAILED'', JStr ''CANCELLED'']
                    then Some (Inr False, s1)
                    else Some (Inr False, s1))))"

definition status_url :: "json \<Rightarrow> fstring" where
  "status_url query_id = [Lit ''https://api.gardin.ag/v1/query/'', Val query_id, Lit ''/status/'']"

definition monitor_query_status ::
  "net \<Rightarrow> json \<Rightarrow> (string \<times> fstring) list \<Rightarrow> world \<Rightarrow> ((exn + bool) \<times> world) option" where
  "monitor_query_status net query_id headers s =
     monitor_loop net (status_url query_id) headers s"

definition download_results ::
  "net \<Rightarrow> json \<Rightarrow> (string \<times> fstring) list \<Rightarrow> world \<Rightarrow> (exn + json) \<times> world" where
  "download_results net query_id headers s =
     (let download_url =
            [Lit ''https://api.gardin.ag/v1/query/'', Val query_id, Lit ''/result/download'']
      in case requests_get net download_url headers s of
           (Inl e, s1) \<Rightarrow> (Inl e, s1)
         | (Inr response, s1) \<Rightarrow>
             (case check_api_response response ''Get URI for csv file'' of
                Inl e \<Rightarrow> (Inl e, s1)
              | Inr _ \<Rightarrow>
                  (case json_loads (text_json response) of
                     Inl e \<Rightarrow> (Inl e, s1)
                   | Inr j \<Rightarrow> (dict_get j ''uri'' (JStr ''''), s1))))"

definition save_results :: "net \<Rightarrow> clock \<Rightarrow> json \<Rightarrow> world \<Rightarrow> (exn + unit) \<times> world" where
  "save_results net now signed_uri s =
     (let csv_filename = CSV_DOWNLOAD_PATH_PREFIX @ str_int (now (trace s)) @ ''.csv''
      in case requests_get net [Val signed_uri] [] s of
           (Inl e, s1) \<Rightarrow> (Inl e, s1)
         | (Inr response, s1) \<Rightarrow>
             (Inr (), s1\<lparr>trace := trace s1 @ [Write csv_filename (content response)],
                         files := (files s1)(csv_filename \<mapsto> content response)\<rparr>))"

definition bearer_headers :: "json \<Rightarrow> (string \<times> fstring) list" where
  "bearer_headers token =
     [(''Content-Type'', [Lit ''application/json'']),
      (''Accept'', [Lit ''application/json'']),
      (''Authorization'', [Lit ''Bearer '', Val token])]"

definition main ::
  "net \<Rightarrow> clock \<Rightarrow> string \<Rightarrow> string \<Rightarrow> world \<Rightarrow> ((exn + unit) \<times> world) option" where
  "main net now client_id client_secret s =
     (case get_auth_token net client_id client_secret s of
        (Inl e, s1) \<Rightarrow> Some (Inl e, s1)
      | (Inr token, s1) \<Rightarrow>
          (let headers = bearer_headers token
           in case submit_query net token headers s1 of
                (Inl e, s2) \<Rightarrow> Some (Inl e, s2)
              | (Inr query_id, s2) \<Rightarrow>
                  (case monitor_query_status net query_id headers s2 of
                     None \<Rightarrow> None
                   | Some (Inl e, s3) \<Rightarrow> Some (Inl e, s3)
                   | Some (Inr query_completed, s3) \<Rightarrow>
                       if query_completed then
                         (case download_results net query_id headers s3 of
                            (Inl e, s4) \<Rightarrow> Some (Inl e, s4)
                          | (Inr signed_uri, s4) \<Rightarrow> Some (save_results net now signed_uri s4))
                       else Some (Inr (), s3))))"

subsection \<open>Notions for stating the behaviour\<close>

text \<open>
  One round of the polling loop sends \<open>status_request\<close>, reads the status out of the reply
  (\<open>polled_status\<close>, lines 113 to 115 of the script) and, when the status is \<open>pending\<close>, sleeps.
  \<open>rounds k rq s\<close> is the state after \<open>k\<close> such rounds, \<open>logged rq s\<close> the state after the
  request alone.
\<close>

definition status_request :: "fstring \<Rightarrow> (string \<times> fstring) list \<Rightarrow> request" where
  "status_request u hs = \<lparr>rq_method = GET, rq_url = u, rq_headers = hs, rq_data = None\<rparr>"

definition token_request :: "string \<Rightarrow> string \<Rightarrow> request" where
  "token_request client_id client_secret =
     \<lparr>rq_method = POST, rq_url = [Lit ''https://login.gardin.ag/oauth2/token''],
      rq_headers = auth_headers client_id client_secret,
      rq_data = Some (Form [(''grant_type'', ''client_credentials'')])\<rparr>"

definition submit_request :: "(string \<times> fstring) list \<Rightarrow> request" where
  "submit_request hs =
     \<lparr>rq_method = POST, rq_url = [Lit ''https://api.gardin.ag/v1/query''],
      rq_headers = hs, rq_data = Some (Body query_payload)\<rparr>"

definition download_request :: "json \<Rightarrow> (string \<times> fstring) list \<Rightarrow> request" where
  "download_request query_id hs =
     \<lparr>rq_method = GET,
      rq_url = [Lit ''https://api.gardin.ag/v1/query/'', Val query_id, Lit ''/result/download''],
      rq_headers = hs, rq_data = None\<rparr>"

definition file_request :: "json \<Rightarrow> request" where
  "file_request signed_uri =
     \<lparr>rq_method = GET, rq_url = [Val signed_uri], rq_headers = [], rq_data = None\<rparr>"

definition logged :: "request \<Rightarrow> world \<Rightarrow> world" where
  "logged rq s = s\<lparr>trace := trace s @ [Request rq]\<rparr>"

definition pending :: "json \<Rightarrow> bool" where
  "pending status = (status \<in> set [JStr ''SUBMITTED'', JStr ''IN_PROGRESS'', JStr ''RUNNING''])"

text \<open>
  What the three other callers of \<^verbatim>\<open>check_api_response\<close> make of a reply: the exception that the
  request raised, the \<^verbatim>\<open>RuntimeError\<close> for a response that is not \<open>ok\<close>, the exception of
  \<^verbatim>\<open>json.loads\<close> or of \<^verbatim>\<open>.get\<close>, or else the field of the body, with its default.
\<close>

definition reply_field :: "string \<Rightarrow> json \<Rightarrow> reply \<Rightarrow> exn + json" where
  "reply_field key dflt rep =
     (case rep of
        Inl e \<Rightarrow> Inl e
      | Inr r \<Rightarrow>
          if \<not> ok r then Inl (RuntimeError (''API request failed: '' @ reason r))
          else (case text_json r of
                  None \<Rightarrow> Inl JSONDecodeError
                | Some j \<Rightarrow> dict_get j key dflt))"

text \<open>
  What one poll makes of a reply: the same, with the status as \<open>response_status\<close> reads it.
\<close>

definition polled_status :: "reply \<Rightarrow> exn + json" where
  "polled_status rep =
     (case rep of
        Inl e \<Rightarrow> Inl e
      | Inr r \<Rightarrow>
          if \<not> ok r then Inl (RuntimeError (''API request failed: '' @ reason r))
          else response_status r)"

definition pending_reply :: "reply \<Rightarrow> bool" where
  "pending_reply rep = (case polled_status rep of Inl e \<Rightarrow> False | Inr status \<Rightarrow> pending status)"


fun rounds :: "nat \<Rightarrow> request \<Rightarrow> world \<Rightarrow> world" where
  "rounds 0 rq s = s"
| "rounds (Suc k) rq s = rounds k rq (sleep 10 (logged rq s))"

subsection \<open>Test doubles\<close>

text \<open>
  A remote side that plays a fixed script, one reply per request in the order of the
  requests, and a clock that stands still.
\<close>

definition world0 :: world where
  "world0 = \<lparr>trace = [], files = Map.empty\<rparr>"

fun is_request :: "event \<Rightarrow> bool" where
  "is_request (Request rq) = True"
| "is_request (Sleep n) = False"
| "is_request (Write name bytes) = False"

definition scripted :: "reply list \<Rightarrow> net" where
  "scripted rs t rq =
     (let n = length (filter is_request t)
      in if n < length rs then rs ! n else Inl RequestException)"

definition always :: "reply \<Rightarrow> net" where
  "always rep t rq = rep"

definition fixed_clock :: "int \<Rightarrow> clock" where
  "fixed_clock t h = t"

definition json_response :: "nat \<Rightarrow> string \<Rightarrow> json \<Rightarrow> response" where
  "json_response code phrase j =
     \<lparr>status_code = code, reason = phrase, text_json = Some j, content = []\<rparr>"

definition status_response :: "string \<Rightarrow> response" where
  "status_response st = json_response 200 ''OK'' (JObj [(''status'', JStr st)])"

definition token_response :: "string \<Rightarrow> response" where
  "token_response tok = json_response 200 ''OK'' (JObj [(''access_token'', JStr tok)])"

definition query_response :: "string \<Rightarrow> response" where
  "query_response qid = json_response 200 ''OK'' (JObj [(''queryId'', JStr qid)])"

definition uri_response :: "string \<Rightarrow> response" where
  "uri_response uri = json_response 200 ''OK'' (JObj [(''uri'', JStr uri)])"

definition file_response :: "string \<Rightarrow> response" where
  "file_response bytes = \<lparr>status_code = 200, reason = ''OK'', text_json = None, content = bytes\<rparr>"

section \<open>Properties\<close>

subsection \<open>The polling loop\<close>

lemma body_unfold:
  "(case requests_get net u hs s of
      (Inl e, s1) \<Rightarrow> Some (Inl e, s1)
    | (Inr response, s1) \<Rightarrow>
        (case check_api_response response ''Get Processing status'' of
           Inl e \<Rightarrow> Some (Inl e, s1)
         | Inr _ \<Rightarrow>
             (case response_status response of
                Inl e \<Rightarrow> Some (Inl e, s1)
              | Inr status \<Rightarrow>
                  if status \<in> set [JStr ''SUBMITTED'', JStr ''IN_PROGRESS'', JStr ''RUNNING'']
                  then loop net u hs (sleep QUERY_STATUS_POLLING_WAIT_SECS s1)
                  else if status = JStr ''COMPLETED'' then Some (Inr True, s1)
                  else if status \<in> set [JStr ''FAILED'', JStr ''CANCELLED'']
                  then Some (Inr False, s1)
                  else Some (Inr False, s1)))) =
   (case polled_status (net (trace s) (status_request u hs)) of
      Inl e \<Rightarrow> Some (Inl e, logged (status_request u hs) s)
    | Inr status \<Rightarrow>
        if pending status
        then loop net u hs (sleep 10 (logged (status_request u hs) s))
        else Some (Inr (status = JStr ''COMPLETED''), logged (status_request u hs) s))"
proof (cases "net (trace s) (status_request u hs)")
  case (Inl e)
  then show ?thesis
    by (simp add: requests_get_def send_def status_request_def logged_def polled_status_def)
next
  case (Inr r)
  show ?thesis
  proof (cases "ok r")
    case False
    with Inr show ?thesis
      by (simp add: requests_get_def send_def status_request_def logged_def polled_status_def
          check_api_response_def)
  next
    case True
    show ?thesis
    proof (cases "response_status r")
      case (Inl e)
      with Inr True show ?thesis
        by (simp add: requests_get_def send_def status_request_def logged_def polled_status_def
            check_api_response_def)
    next
      case st: (Inr status)
      with Inr True show ?thesis
        by (simp add: requests_get_def send_def status_request_def logged_def polled_status_def
            check_api_response_def pending_def QUERY_STATUS_POLLING_WAIT_SECS_def)
    qed
  qed
qed

lemma loop_unfold:
  "monitor_loop net u hs s =
     (case polled_status (net (trace s) (status_request u hs)) of
        Inl e \<Rightarrow> Some (Inl e, logged (status_request u hs) s)
      | Inr status \<Rightarrow>
          if pending status
          then monitor_loop net u hs (sleep 10 (logged (status_request u hs) s))
          else Some (Inr (status = JStr ''COMPLETED''), logged (status_request u hs) s))"
  by (subst monitor_loop.simps) (rule body_unfold)

lemma trace_rounds:
  "trace (rounds k rq s) = trace s @ concat (replicate k [Request rq, Sleep 10])"
  by (induction k arbitrary: s) (simp_all add: sleep_def logged_def)

lemma files_rounds: "files (rounds k rq s) = files s"
  by (induction k arbitrary: s) (simp_all add: sleep_def logged_def)

lemma loop_rounds:
  "(\<forall>i<k. pending_reply (net (trace (rounds i (status_request u hs) s)) (status_request u hs)))
   \<Longrightarrow> monitor_loop net u hs s = monitor_loop net u hs (rounds k (status_request u hs) s)"
proof (induction k arbitrary: s)
  case 0
  show ?case by simp
next
  case (Suc k)
  let ?rq = "status_request u hs"
  from Suc.prems have p0: "pending_reply (net (trace (rounds 0 ?rq s)) ?rq)"
    by blast
  have step: "monitor_loop net u hs s = monitor_loop net u hs (sleep 10 (logged ?rq s))"
    using p0 by (subst loop_unfold) (simp add: pending_reply_def split: sum.splits)
  have "\<forall>i<k. pending_reply (net (trace (rounds i ?rq (sleep 10 (logged ?rq s)))) ?rq)"
  proof (intro allI impI)
    fix i assume "i < k"
    then have "Suc i < Suc k" by simp
    with Suc.prems have "pending_reply (net (trace (rounds (Suc i) ?rq s)) ?rq)" by blast
    then show "pending_reply (net (trace (rounds i ?rq (sleep 10 (logged ?rq s)))) ?rq)" by simp
  qed
  from Suc.IH [OF this] step show ?case by simp
qed

lemma loop_stops:
  assumes "\<not> pending_reply (net (trace s) (status_request u hs))"
  shows "monitor_loop net u hs s =
           Some (case polled_status (net (trace s) (status_request u hs)) of
                   Inl e \<Rightarrow> Inl e
                 | Inr status \<Rightarrow> Inr (status = JStr ''COMPLETED''),
                 logged (status_request u hs) s)"
  using assms by (subst loop_unfold) (simp add: pending_reply_def split: sum.splits)

lemma loop_returns_imp:
  assumes "monitor_loop net u hs s = Some y"
  shows "\<exists>k. \<not> pending_reply (net (trace (rounds k (status_request u hs) s)) (status_request u hs))"
proof (rule monitor_loop.raw_induct
    [where P = "\<lambda>net u hs s y. \<exists>k. \<not> pending_reply
        (net (trace (rounds k (status_request u hs) s)) (status_request u hs))", OF _ assms],
    goal_cases)
  case (1 loop net u hs s y)
  let ?rq = "status_request u hs"
  show ?case
  proof (cases "pending_reply (net (trace s) ?rq)")
    case False
    then have "\<not> pending_reply (net (trace (rounds 0 ?rq s)) ?rq)" by simp
    then show ?thesis by blast
  next
    case True
    from 1(2) have "(case polled_status (net (trace s) ?rq) of
        Inl e \<Rightarrow> Some (Inl e, logged ?rq s)
      | Inr status \<Rightarrow>
          if pending status then loop net u hs (sleep 10 (logged ?rq s))
          else Some (Inr (status = JStr ''COMPLETED''), logged ?rq s)) = Some y"
      by (simp only: body_unfold [where loop = loop])
    with True have "loop net u hs (sleep 10 (logged ?rq s)) = Some y"
      by (simp add: pending_reply_def split: sum.splits)
    from 1(1) [OF this] obtain k where
      "\<not> pending_reply (net (trace (rounds k ?rq (sleep 10 (logged ?rq s)))) ?rq)" by blast
    then have "\<not> pending_reply (net (trace (rounds (Suc k) ?rq s)) ?rq)" by simp
    then show ?thesis by blast
  qed
qed

lemma loop_returns_iff:
  "(\<exists>y. monitor_loop net u hs s = Some y) \<longleftrightarrow>
   (\<exists>k. \<not> pending_reply (net (trace (rounds k (status_request u hs) s)) (status_request u hs)))"
proof
  assume "\<exists>y. monitor_loop net u hs s = Some y"
  then show "\<exists>k. \<not> pending_reply (net (trace (rounds k (status_request u hs) s)) (status_request u hs))"
    using loop_returns_imp by blast
next
  let ?rq = "status_request u hs"
  let ?Q = "\<lambda>k. \<not> pending_reply (net (trace (rounds k ?rq s)) ?rq)"
  assume "\<exists>k. ?Q k"
  then obtain k where k: "?Q k" by blast
  define m where "m = (LEAST k. ?Q k)"
  have Qm: "?Q m" unfolding m_def using k by (rule LeastI)
  have "\<forall>i<m. pending_reply (net (trace (rounds i ?rq s)) ?rq)"
    unfolding m_def using not_less_Least by blast
  then have "monitor_loop net u hs s = monitor_loop net u hs (rounds m ?rq s)"
    by (rule loop_rounds)
  with loop_stops [of net "rounds m ?rq s" u hs] Qm show "\<exists>y. monitor_loop net u hs s = Some y" by simp
qed

subsection \<open>One request, one field\<close>

lemma fetch_unfold:
  "(case send net rq s of
      (Inl e, s1) \<Rightarrow> (Inl e, s1)
    | (Inr response, s1) \<Rightarrow>
        (case check_api_response response action of
           Inl e \<Rightarrow> (Inl e, s1)
         | Inr _ \<Rightarrow>
             (case json_loads (text_json response) of
                Inl e \<Rightarrow> (Inl e, s1)
              | Inr j \<Rightarrow> (dict_get j key dflt, s1)))) =
   (reply_field key dflt (net (trace s) rq), logged rq s)"
  by (simp add: send_def logged_def reply_field_def check_api_response_def json_loads_def
      split: sum.splits option.splits)

lemma get_auth_token_unfold:
  "get_auth_token net client_id client_secret s =
     (reply_field ''access_token'' (JStr '''') (net (trace s) (token_request client_id client_secret)),
      logged (token_request client_id client_secret) s)"
  by (simp add: get_auth_token_def requests_post_def token_request_def fetch_unfold Let_def)

lemma submit_query_unfold:
  "submit_query net token hs s =
     (reply_field ''queryId'' (JStr '''') (net (trace s) (submit_request hs)),
      logged (submit_request hs) s)"
  by (simp add: submit_query_def requests_post_def submit_request_def fetch_unfold Let_def)

lemma download_results_unfold:
  "download_results net query_id hs s =
     (reply_field ''uri'' (JStr '''') (net (trace s) (download_request query_id hs)),
      logged (download_request query_id hs) s)"
  by (simp add: download_results_def requests_get_def download_request_def fetch_unfold Let_def)

lemma save_results_unfold:
  "save_results net now signed_uri s =
     (case net (trace s) (file_request signed_uri) of
        Inl e \<Rightarrow> (Inl e, logged (file_request signed_uri) s)
      | Inr r \<Rightarrow>
          (Inr (),
           \<lparr>trace = trace s @ [Request (file_request signed_uri),
                               Write (CSV_DOWNLOAD_PATH_PREFIX @ str_int (now (trace s)) @ ''.csv'')
                                 (content r)],
            files = (files s)(CSV_DOWNLOAD_PATH_PREFIX @ str_int (now (trace s)) @ ''.csv''
                              \<mapsto> content r)\<rparr>))"
  by (simp add: save_results_def requests_get_def send_def file_request_def logged_def Let_def
      split: sum.splits)

lemma main_token_error:
  "get_auth_token net cid sec s = (Inl e, s1) \<Longrightarrow> main net now cid sec s = Some (Inl e, s1)"
  by (simp add: main_def)

lemma main_submit_error:
  "get_auth_token net cid sec s = (Inr token, s1) \<Longrightarrow>
   submit_query net token (bearer_headers token) s1 = (Inl e, s2) \<Longrightarrow>
   main net now cid sec s = Some (Inl e, s2)"
  by (simp add: main_def)

lemma main_monitor_error:
  "get_auth_token net cid sec s = (Inr token, s1) \<Longrightarrow>
   submit_query net token (bearer_headers token) s1 = (Inr query_id, s2) \<Longrightarrow>
   monitor_query_status net query_id (bearer_headers token) s2 = Some (Inl e, s3) \<Longrightarrow>
   main net now cid sec s = Some (Inl e, s3)"
  by (simp add: main_def)

lemma main_monitor_diverges:
  "get_auth_token net cid sec s = (Inr token, s1) \<Longrightarrow>
   submit_query net token (bearer_headers token) s1 = (Inr query_id, s2) \<Longrightarrow>
   monitor_query_status net query_id (bearer_headers token) s2 = None \<Longrightarrow>
   main net now cid sec s = None"
  by (simp add: main_def)

lemma main_not_completed:
  "get_auth_token net cid sec s = (Inr token, s1) \<Longrightarrow>
   submit_query net token (bearer_headers token) s1 = (Inr query_id, s2) \<Longrightarrow>
   monitor_query_status net query_id (bearer_headers token) s2 = Some (Inr False, s3) \<Longrightarrow>
   main net now cid sec s = Some (Inr (), s3)"
  by (simp add: main_def)

lemma main_completed:
  "get_auth_token net cid sec s = (Inr token, s1) \<Longrightarrow>
   submit_query net token (bearer_headers token) s1 = (Inr query_id, s2) \<Longrightarrow>
   monitor_query_status net query_id (bearer_headers token) s2 = Some (Inr True, s3) \<Longrightarrow>
   main net now cid sec s =
     (case download_results net query_id (bearer_headers token) s3 of
        (Inl e, s4) \<Rightarrow> Some (Inl e, s4)
      | (Inr signed_uri, s4) \<Rightarrow> Some (save_results net now signed_uri s4))"
  by (simp add: main_def)

lemma reply_field_absent:
  "ok r \<Longrightarrow> text_json r = Some (JObj kvs) \<Longrightarrow> map_of kvs key = None \<Longrightarrow>
   reply_field key dflt (Inr r) = Inr dflt"
  by (simp add: reply_field_def)

lemma reply_field_present:
  "ok r \<Longrightarrow> text_json r = Some (JObj kvs) \<Longrightarrow> map_of kvs key = Some v \<Longrightarrow>
   reply_field key dflt (Inr r) = Inr v"
  by (simp add: reply_field_def)

lemma reply_field_not_ok:
  "\<not> ok r \<Longrightarrow>
   reply_field key dflt (Inr r) = Inl (RuntimeError (''API request failed: '' @ reason r))"
  by (simp add: reply_field_def)

lemma ok_2xx: "200 \<le> status_code r \<Longrightarrow> status_code r < 300 \<Longrightarrow> ok r"
  by (simp add: ok_def)

subsection \<open>The poller after any number of rounds\<close>

lemma monitor_after_rounds:
  assumes "\<forall>i<k. pending_reply (net (trace (rounds i (status_request (status_url q) hs) s))
                                  (status_request (status_url q) hs))"
    and "\<not> pending_reply (net (trace (rounds k (status_request (status_url q) hs) s))
                              (status_request (status_url q) hs))"
  shows "monitor_query_status net q hs s =
           Some (case polled_status (net (trace (rounds k (status_request (status_url q) hs) s))
                                      (status_request (status_url q) hs)) of
                   Inl e \<Rightarrow> Inl e
                 | Inr status \<Rightarrow> Inr (status = JStr ''COMPLETED''),
                 logged (status_request (status_url q) hs)
                   (rounds k (status_request (status_url q) hs) s))"
proof -
  let ?rq = "status_request (status_url q) hs"
  have "monitor_loop net (status_url q) hs s = monitor_loop net (status_url q) hs (rounds k ?rq s)"
    using assms(1) by (rule loop_rounds)
  also have "\<dots> = Some (case polled_status (net (trace (rounds k ?rq s)) ?rq) of
                   Inl e \<Rightarrow> Inl e
                 | Inr status \<Rightarrow> Inr (status = JStr ''COMPLETED''),
                 logged ?rq (rounds k ?rq s))"
    using assms(2) by (rule loop_stops)
  finally show ?thesis by (simp add: monitor_query_status_def)
qed

lemma trace_logged_rounds:
  "trace (logged rq (rounds k rq s)) =
     trace s @ concat (replicate k [Request rq, Sleep 10]) @ [Request rq]"
  by (simp add: logged_def trace_rounds)

lemma files_logged_rounds: "files (logged rq (rounds k rq s)) = files s"
  by (simp add: logged_def files_rounds)

lemma not_pending_status:
  "polled_status rep = Inr status \<Longrightarrow> \<not> pending status \<Longrightarrow> \<not> pending_reply rep"
  by (simp add: pending_reply_def)

lemma not_pending_error: "polled_status rep = Inl e \<Longrightarrow> \<not> pending_reply rep"
  by (simp add: pending_reply_def)

lemma pending_JStr:
  "pending (JStr st) \<longleftrightarrow> st \<in> set [''SUBMITTED'', ''IN_PROGRESS'', ''RUNNING'']"
  by (auto simp: pending_def)

lemma always_running_pending:
  "pending_reply (always (Inr (status_response ''RUNNING'')) t rq)"
  by (simp add: always_def status_response_def json_response_def pending_reply_def
      polled_status_def response_status_def json_loads_def reply_field_def ok_def pending_def)

subsection \<open>Whole runs\<close>

lemma run_prefix_trace:
  assumes "get_auth_token net client_id client_secret s = (Inr token, s_auth)"
    and "submit_query net token hs s_auth = (Inr q, s_sub)"
  shows "trace s_sub = trace s @ [Request (token_request client_id client_secret),
                               Request (submit_request hs)]"
    and "files s_sub = files s"
  using assms by (auto simp: get_auth_token_unfold submit_query_unfold logged_def)

lemmas script_defs =
  scripted_def always_def json_response_def status_response_def token_response_def
  query_response_def uri_response_def file_response_def world0_def fixed_clock_def

lemmas poll_defs =
  pending_reply_def polled_status_def response_status_def json_loads_def reply_field_def ok_def pending_def sleep_def logged_def

subsection \<open>Base64 decoding inverts encoding\<close>

lemma b64_alphabet_length: "length b64_alphabet = 64"
  by (simp add: b64_alphabet_def)

lemma b64_alphabet_distinct: "distinct b64_alphabet"
  by (simp add: b64_alphabet_def)

lemma b64_alphabet_no_pad: "CHR ''='' \<notin> set b64_alphabet"
  by (simp add: b64_alphabet_def)

lemma b64_index_char: "n < 64 \<Longrightarrow> b64_index (b64_char n) = Some n"
  unfolding b64_index_def b64_char_def
  using map_of_zip_nth [of b64_alphabet "[0..<64]" n]
  by (simp add: b64_alphabet_length b64_alphabet_distinct)

lemma b64_char_not_pad:
  assumes "n < 64"
  shows "b64_char n \<noteq> CHR ''=''"
proof -
  from assms have "b64_alphabet ! n \<in> set b64_alphabet"
    by (simp add: b64_alphabet_length)
  with b64_alphabet_no_pad show ?thesis
    unfolding b64_char_def by metis
qed

lemma pack_div: "b < m \<Longrightarrow> (a * m + b) div m = (a::nat)"
  by simp

lemma pack_mod: "b < m \<Longrightarrow> (a * m + b) mod m = (b::nat)"
  by simp

lemma octet_parts:
  fixes x :: nat
  assumes "x < 256"
  shows "x div 4 < 64" and "x mod 4 < 4" and "x div 16 < 16" and "x mod 16 < 16"
    and "x div 64 < 4" and "x mod 64 < 64"
  using assms by simp_all

lemma sextets:
  fixes x y z :: nat
  assumes "x < 256" and "y < 256" and "z < 256"
  defines "p \<equiv> x div 4"
    and "q \<equiv> (x mod 4) * 16 + y div 16"
    and "r \<equiv> (y mod 16) * 4 + z div 64"
    and "t \<equiv> z mod 64"
  shows "p < 64" and "q < 64" and "r < 64" and "t < 64"
    and "p * 4 + q div 16 = x"
    and "(q mod 16) * 16 + r div 4 = y"
    and "(r mod 4) * 64 + t = z"
proof -
  note ox = octet_parts [OF assms(1)] and oy = octet_parts [OF assms(2)]
    and oz = octet_parts [OF assms(3)]
  show "p < 64" unfolding p_def by (rule ox(1))
  show "q < 64" unfolding q_def using ox(2) oy(3) by linarith
  show "r < 64" unfolding r_def using oy(4) oz(5) by linarith
  show "t < 64" unfolding t_def by (rule oz(6))
  have qd: "q div 16 = x mod 4" unfolding q_def using oy(3) by (rule pack_div)
  have qm: "q mod 16 = y div 16" unfolding q_def using oy(3) by (rule pack_mod)
  have rd: "r div 4 = y mod 16" unfolding r_def using oz(5) by (rule pack_div)
  have rm: "r mod 4 = z div 64" unfolding r_def using oz(5) by (rule pack_mod)
  show "p * 4 + q div 16 = x" unfolding qd p_def by simp
  show "(q mod 16) * 16 + r div 4 = y" unfolding qm rd by simp
  show "(r mod 4) * 64 + t = z" unfolding rm t_def by simp
qed

lemma decode_one_octet:
  assumes "x < 256"
  shows "b64decode [b64_char (x div 4), b64_char ((x mod 4) * 16), CHR ''='', CHR ''='']
         = Some [char_of x]"
proof -
  define p where "p = x div 4"
  define q where "q = (x mod 4) * 16"
  note ox = octet_parts [OF assms]
  have pb: "p < 64" unfolding p_def by (rule ox(1))
  have qb: "q < 64" unfolding q_def using ox(2) by linarith
  have qd: "q div 16 = x mod 4" unfolding q_def by simp
  have v: "p * 4 + q div 16 = x" unfolding qd p_def by simp
  have "b64decode [b64_char p, b64_char q, CHR ''='', CHR ''='']
        = Some [char_of (p * 4 + q div 16)]"
    by (simp add: b64_index_char pb qb)
  then show ?thesis
    unfolding v unfolding p_def q_def .
qed

lemma decode_two_octets:
  assumes "x < 256" and "y < 256"
  shows "b64decode [b64_char (x div 4), b64_char ((x mod 4) * 16 + y div 16),
                    b64_char ((y mod 16) * 4), CHR ''='']
         = Some [char_of x, char_of y]"
proof -
  define p where "p = x div 4"
  define q where "q = (x mod 4) * 16 + y div 16"
  define r where "r = (y mod 16) * 4"
  note ox = octet_parts [OF assms(1)] and oy = octet_parts [OF assms(2)]
  have pb: "p < 64" unfolding p_def by (rule ox(1))
  have qb: "q < 64" unfolding q_def using ox(2) oy(3) by linarith
  have rb: "r < 64" unfolding r_def using oy(4) by linarith
  have qd: "q div 16 = x mod 4" unfolding q_def using oy(3) by (rule pack_div)
  have qm: "q mod 16 = y div 16" unfolding q_def using oy(3) by (rule pack_mod)
  have rd: "r div 4 = y mod 16" unfolding r_def by simp
  have v: "p * 4 + q div 16 = x" unfolding qd p_def by simp
  have w: "(q mod 16) * 16 + r div 4 = y" unfolding qm rd by simp
  have "b64decode [b64_char p, b64_char q, b64_char r, CHR ''='']
        = Some [char_of (p * 4 + q div 16), char_of ((q mod 16) * 16 + r div 4)]"
    by (simp add: b64_index_char b64_char_not_pad pb qb rb)
  then show ?thesis
    unfolding v w unfolding p_def q_def r_def .
qed

lemma decode_three_octets:
  assumes "x < 256" and "y < 256" and "z < 256"
  shows "b64decode (b64_char (x div 4) # b64_char ((x mod 4) * 16 + y div 16)
                    # b64_char ((y mod 16) * 4 + z div 64) # b64_char (z mod 64) # cs)
         = (case b64decode cs of
              None \<Rightarrow> None
            | Some bs \<Rightarrow> Some (char_of x # char_of y # char_of z # bs))"
proof -
  define p where "p = x div 4"
  define q where "q = (x mod 4) * 16 + y div 16"
  define r where "r = (y mod 16) * 4 + z div 64"
  define t where "t = z mod 64"
  note sx = sextets [OF assms, folded p_def q_def r_def t_def]
  have "b64decode (b64_char p # b64_char q # b64_char r # b64_char t # cs)
        = (case b64decode cs of
             None \<Rightarrow> None
           | Some bs \<Rightarrow> Some (char_of (p * 4 + q div 16) # char_of ((q mod 16) * 16 + r div 4)
                              # char_of ((r mod 4) * 64 + t) # bs))"
    by (simp add: b64_index_char b64_char_not_pad sx(1-4))
  then show ?thesis
    unfolding sx(5-7) unfolding p_def q_def r_def t_def .
qed

lemma b64_round_trip: "b64decode (b64encode bs) = Some bs"
proof (induction bs rule: b64encode.induct)
  case 1
  show ?case by simp
next
  case (2 a)
  have "b64decode (b64encode [a]) = Some [char_of (of_char a :: nat)]"
    unfolding b64encode.simps Let_def by (rule decode_one_octet) simp
  then show ?case by simp
next
  case (3 a b)
  have "b64decode (b64encode [a, b]) = Some [char_of (of_char a :: nat), char_of (of_char b :: nat)]"
    unfolding b64encode.simps Let_def by (rule decode_two_octets) simp_all
  then show ?case by simp
next
  case (4 a b c bs)
  have "b64decode (b64encode (a # b # c # bs)) =
        (case b64decode (b64encode bs) of
           None \<Rightarrow> None
         | Some ds \<Rightarrow> Some (char_of (of_char a :: nat) # char_of (of_char b :: nat)
                            # char_of (of_char c :: nat) # ds))"
    unfolding b64encode.simps Let_def append.simps by (rule decode_three_octets) simp_all
  with "4.IH" show ?case by simp
qed

subsection \<open>Decimal rendering\<close>

lemma str_int_example: "str_int 1700000000 = ''1700000000''"
  by (simp add: str_int_def digit_def)

subsection \<open>Fields that the body lacks\<close>

text \<open>
  Claim C6. For every successful (2xx) response whose JSON body is an object without the
  expected field, the extracting operation returns the empty string instead of failing:
  \<open>get_auth_token\<close> for \<^verbatim>\<open>access_token\<close>, \<open>submit_query\<close> for \<^verbatim>\<open>queryId\<close> and
  \<open>download_results\<close> for \<^verbatim>\<open>uri\<close>. Each sends its one request and nothing else.
\<close>


theorem absent_field_yields_empty_string:
  assumes "200 \<le> status_code r" and "status_code r < 300"
    and "text_json r = Some (JObj kvs)"
  shows "(net (trace s) (token_request client_id client_secret) = Inr r \<and>
          map_of kvs ''access_token'' = None \<longrightarrow>
          get_auth_token net client_id client_secret s =
            (Inr (JStr ''''), logged (token_request client_id client_secret) s)) \<and>
         (net (trace s) (submit_request hs) = Inr r \<and> map_of kvs ''queryId'' = None \<longrightarrow>
          submit_query net token hs s = (Inr (JStr ''''), logged (submit_request hs) s)) \<and>
         (net (trace s) (download_request query_id hs) = Inr r \<and> map_of kvs ''uri'' = None \<longrightarrow>
          download_results net query_id hs s =
            (Inr (JStr ''''), logged (download_request query_id hs) s))"
  using assms
  by (simp add: get_auth_token_unfold submit_query_unfold download_results_unfold
      reply_field_absent ok_2xx)

theorem absent_field_yields_empty_string_witness:
  "get_auth_token (scripted [Inr (json_response 200 ''OK'' (JObj []))]) ''id'' ''secret'' world0 =
     (Inr (JStr ''''), logged (token_request ''id'' ''secret'') world0) \<and>
   submit_query (scripted [Inr (json_response 200 ''OK'' (JObj []))]) (JStr ''t'') [] world0 =
     (Inr (JStr ''''), logged (submit_request []) world0) \<and>
   download_results (scripted [Inr (json_response 200 ''OK'' (JObj []))]) (JStr ''q'') [] world0 =
     (Inr (JStr ''''), logged (download_request (JStr ''q'') []) world0)"
  using absent_field_yields_empty_string
    [of "json_response 200 ''OK'' (JObj [])" "[]"
        "scripted [Inr (json_response 200 ''OK'' (JObj []))]" world0 "''id''" "''secret''"
        "[]" "JStr ''t''" "JStr ''q''"]
  by (simp add: json_response_def scripted_def world0_def)

subsection \<open>The poller as a state machine\<close>


subsection \<open>The loop has no bound\<close>

text \<open>
  Claim C7. The polling loop is unbounded. If every poll reads a pending status, the call
  never returns. It returns exactly when some poll is not pending (a terminal status or a
  failure), and then at the first such poll, however many pending rounds came before:
  there is no maximum attempt count and no timeout.
\<close>

theorem polling_is_unbounded:
  assumes "rq = status_request (status_url q) hs"
  shows "((\<forall>k. pending_reply (net (trace (rounds k rq s)) rq)) \<longrightarrow>
            monitor_query_status net q hs s = None) \<and>
         ((\<exists>y. monitor_query_status net q hs s = Some y) \<longleftrightarrow>
            (\<exists>k. \<not> pending_reply (net (trace (rounds k rq s)) rq))) \<and>
         ((\<forall>i<k. pending_reply (net (trace (rounds i rq s)) rq)) \<and>
            \<not> pending_reply (net (trace (rounds k rq s)) rq) \<longrightarrow>
            (\<exists>res. monitor_query_status net q hs s = Some (res, logged rq (rounds k rq s))))"
proof -
  have iff: "(\<exists>y. monitor_query_status net q hs s = Some y) \<longleftrightarrow>
            (\<exists>k. \<not> pending_reply (net (trace (rounds k rq s)) rq))"
    unfolding monitor_query_status_def assms by (rule loop_returns_iff)
  have "(\<forall>k. pending_reply (net (trace (rounds k rq s)) rq)) \<longrightarrow>
            monitor_query_status net q hs s = None"
  proof
    assume "\<forall>k. pending_reply (net (trace (rounds k rq s)) rq)"
    with iff have "\<not> (\<exists>y. monitor_query_status net q hs s = Some y)" by blast
    then show "monitor_query_status net q hs s = None"
      by (cases "monitor_query_status net q hs s") simp_all
  qed
  moreover have "(\<forall>i<k. pending_reply (net (trace (rounds i rq s)) rq)) \<and>
            \<not> pending_reply (net (trace (rounds k rq s)) rq) \<longrightarrow>
            (\<exists>res. monitor_query_status net q hs s = Some (res, logged rq (rounds k rq s)))"
    unfolding assms using monitor_after_rounds [of k net q hs s] by blast
  ultimately show ?thesis using iff by blast
qed

theorem polling_is_unbounded_witness:
  "monitor_query_status (always (Inr (status_response ''RUNNING''))) (JStr ''abc123'') [] world0 = None
   \<and> (\<exists>res. monitor_query_status
         (scripted [Inr (status_response ''RUNNING''), Inr (status_response ''COMPLETED'')])
         (JStr ''abc123'') [] world0 =
       Some (res, logged (status_request (status_url (JStr ''abc123'')) [])
                    (rounds (Suc 0) (status_request (status_url (JStr ''abc123'')) []) world0)))"
proof
  show "monitor_query_status (always (Inr (status_response ''RUNNING''))) (JStr ''abc123'') [] world0 = None"
    using polling_is_unbounded
      [of "status_request (status_url (JStr ''abc123'')) []" "JStr ''abc123''" "[]"
          "always (Inr (status_response ''RUNNING''))" world0 0]
    by (simp add: always_running_pending)
  show "\<exists>res. monitor_query_status
         (scripted [Inr (status_response ''RUNNING''), Inr (status_response ''COMPLETED'')])
         (JStr ''abc123'') [] world0 =
       Some (res, logged (status_request (status_url (JStr ''abc123'')) [])
                    (rounds (Suc 0) (status_request (status_url (JStr ''abc123'')) []) world0))"
    using polling_is_unbounded
      [of "status_request (status_url (JStr ''abc123'')) []" "JStr ''abc123''" "[]"
          "scripted [Inr (status_response ''RUNNING''), Inr (status_response ''COMPLETED'')]"
          world0 "Suc 0"]
    by (simp add: scripted_def status_response_def json_response_def world0_def pending_reply_def
        polled_status_def response_status_def json_loads_def reply_field_def ok_def pending_def sleep_def logged_def)
qed

subsection \<open>A response without a status\<close>



subsection \<open>A failed or cancelled query\<close>

text \<open>
  Claim C3. In every run in which the poller, after any number of pending rounds, reads the
  terminal status \<^verbatim>\<open>FAILED\<close> or \<^verbatim>\<open>CANCELLED\<close>, \<open>monitor_query_status\<close> returns false and the
  orchestrator stops there: the run consists of the token request, the submit request and
  the polls, so \<open>download_results\<close> and \<open>save_results\<close> are not called, no result location
  is fetched and no file is written.
\<close>

theorem failed_or_cancelled_skips_download:
  assumes "get_auth_token net client_id client_secret s = (Inr token, s_auth)"
    and "submit_query net token (bearer_headers token) s_auth = (Inr q, s_sub)"
    and "rq = status_request (status_url q) (bearer_headers token)"
    and "\<forall>i<k. pending_reply (net (trace (rounds i rq s_sub)) rq)"
    and "polled_status (net (trace (rounds k rq s_sub)) rq) = Inr (JStr st)"
    and "st \<in> set [''FAILED'', ''CANCELLED'']"
  shows "monitor_query_status net q (bearer_headers token) s_sub =
           Some (Inr False, logged rq (rounds k rq s_sub)) \<and>
         main net now client_id client_secret s = Some (Inr (), logged rq (rounds k rq s_sub)) \<and>
         trace (logged rq (rounds k rq s_sub)) =
           trace s @ [Request (token_request client_id client_secret),
                      Request (submit_request (bearer_headers token))]
                   @ concat (replicate k [Request rq, Sleep 10]) @ [Request rq] \<and>
         files (logged rq (rounds k rq s_sub)) = files s"
proof -
  from assms(6) have np: "\<not> pending (JStr st)" and nc: "st \<noteq> ''COMPLETED''"
    by (auto simp: pending_JStr)
  from assms(5) np have "\<not> pending_reply (net (trace (rounds k rq s_sub)) rq)"
    by (rule not_pending_status)
  with assms(3,4) have "monitor_query_status net q (bearer_headers token) s_sub =
      Some (case polled_status (net (trace (rounds k rq s_sub)) rq) of
              Inl e \<Rightarrow> Inl e | Inr status \<Rightarrow> Inr (status = JStr ''COMPLETED''),
            logged rq (rounds k rq s_sub))"
    using monitor_after_rounds [of k net q "bearer_headers token" s_sub] by simp
  with assms(5) nc have m: "monitor_query_status net q (bearer_headers token) s_sub =
      Some (Inr False, logged rq (rounds k rq s_sub))" by simp
  from assms(1,2) m have "main net now client_id client_secret s =
      Some (Inr (), logged rq (rounds k rq s_sub))"
    by (rule main_not_completed)
  with m run_prefix_trace [OF assms(1,2)] show ?thesis
    by (simp add: trace_logged_rounds files_logged_rounds)
qed

theorem failed_or_cancelled_skips_download_witness:
  "main (scripted [Inr (token_response ''tok''), Inr (query_response ''abc123''),
                   Inr (status_response ''IN_PROGRESS''), Inr (status_response ''FAILED'')])
     (fixed_clock 0) ''id'' ''secret'' world0 =
   Some (Inr (),
         \<lparr>trace = [Request (token_request ''id'' ''secret''),
                   Request (submit_request (bearer_headers (JStr ''tok''))),
                   Request (status_request (status_url (JStr ''abc123''))
                              (bearer_headers (JStr ''tok''))),
                   Sleep 10,
                   Request (status_request (status_url (JStr ''abc123''))
                              (bearer_headers (JStr ''tok'')))],
          files = Map.empty\<rparr>)"
  using failed_or_cancelled_skips_download
    [where net = "scripted [Inr (token_response ''tok''), Inr (query_response ''abc123''),
                   Inr (status_response ''IN_PROGRESS''), Inr (status_response ''FAILED'')]"
       and client_id = "''id''" and client_secret = "''secret''" and s = world0
       and token = "JStr ''tok''" and s_auth = "logged (token_request ''id'' ''secret'') world0"
       and q = "JStr ''abc123''"
       and s_sub = "logged (submit_request (bearer_headers (JStr ''tok'')))
                     (logged (token_request ''id'' ''secret'') world0)"
       and rq = "status_request (status_url (JStr ''abc123'')) (bearer_headers (JStr ''tok''))"
       and k = "Suc 0" and st = "''FAILED''" and now = "fixed_clock 0"]
  by (simp add: get_auth_token_unfold submit_query_unfold script_defs poll_defs)

subsection \<open>An HTTP failure while polling\<close>

text \<open>
  Claim C5. A response to the status request that is not \<open>ok\<close> aborts the whole run with the
  \<^verbatim>\<open>RuntimeError\<close> of \<open>check_api_response\<close>; it is not retried. The failing request is the last
  event of the run: no sleep and no further status request follow it. Only a pending
  status leads to another poll.
\<close>

theorem http_failure_while_polling_aborts:
  assumes "get_auth_token net client_id client_secret s = (Inr token, s_auth)"
    and "submit_query net token (bearer_headers token) s_auth = (Inr q, s_sub)"
    and "rq = status_request (status_url q) (bearer_headers token)"
    and "\<forall>i<k. pending_reply (net (trace (rounds i rq s_sub)) rq)"
    and "net (trace (rounds k rq s_sub)) rq = Inr r"
    and "\<not> ok r"
  shows "monitor_query_status net q (bearer_headers token) s_sub =
           Some (Inl (RuntimeError (''API request failed: '' @ reason r)),
                 logged rq (rounds k rq s_sub)) \<and>
         main net now client_id client_secret s =
           Some (Inl (RuntimeError (''API request failed: '' @ reason r)),
                 logged rq (rounds k rq s_sub)) \<and>
         trace (logged rq (rounds k rq s_sub)) =
           trace s @ [Request (token_request client_id client_secret),
                      Request (submit_request (bearer_headers token))]
                   @ concat (replicate k [Request rq, Sleep 10]) @ [Request rq] \<and>
         files (logged rq (rounds k rq s_sub)) = files s"
proof -
  from assms(5,6) have st: "polled_status (net (trace (rounds k rq s_sub)) rq) =
      Inl (RuntimeError (''API request failed: '' @ reason r))"
    by (simp add: polled_status_def)
  then have "\<not> pending_reply (net (trace (rounds k rq s_sub)) rq)"
    by (rule not_pending_error)
  with assms(3,4) have "monitor_query_status net q (bearer_headers token) s_sub =
      Some (case polled_status (net (trace (rounds k rq s_sub)) rq) of
              Inl e \<Rightarrow> Inl e | Inr status \<Rightarrow> Inr (status = JStr ''COMPLETED''),
            logged rq (rounds k rq s_sub))"
    using monitor_after_rounds [of k net q "bearer_headers token" s_sub] by simp
  with st have m: "monitor_query_status net q (bearer_headers token) s_sub =
      Some (Inl (RuntimeError (''API request failed: '' @ reason r)),
            logged rq (rounds k rq s_sub))" by simp
  from assms(1,2) m have "main net now client_id client_secret s =
      Some (Inl (RuntimeError (''API request failed: '' @ reason r)),
            logged rq (rounds k rq s_sub))"
    by (rule main_monitor_error)
  with m run_prefix_trace [OF assms(1,2)] show ?thesis
    by (simp add: trace_logged_rounds files_logged_rounds)
qed

theorem http_failure_while_polling_aborts_witness:
  "main (scripted [Inr (token_response ''tok''), Inr (query_response ''abc123''),
                   Inr (status_response ''IN_PROGRESS''),
                   Inr (json_response 503 ''Service Unavailable'' JNull)])
     (fixed_clock 0) ''id'' ''secret'' world0 =
   Some (Inl (RuntimeError ''API request failed: Service Unavailable''),
         \<lparr>trace = [Request (token_request ''id'' ''secret''),
                   Request (submit_request (bearer_headers (JStr ''tok''))),
                   Request (status_request (status_url (JStr ''abc123''))
                              (bearer_headers (JStr ''tok''))),
                   Sleep 10,
                   Request (status_request (status_url (JStr ''abc123''))
                              (bearer_headers (JStr ''tok'')))],
          files = Map.empty\<rparr>)"
  using http_failure_while_polling_aborts
    [where net = "scripted [Inr (token_response ''tok''), Inr (query_response ''abc123''),
                   Inr (status_response ''IN_PROGRESS''),
                   Inr (json_response 503 ''Service Unavailable'' JNull)]"
       and client_id = "''id''" and client_secret = "''secret''" and s = world0
       and token = "JStr ''tok''" and s_auth = "logged (token_request ''id'' ''secret'') world0"
       and q = "JStr ''abc123''"
       and s_sub = "logged (submit_request (bearer_headers (JStr ''tok'')))
                     (logged (token_request ''id'' ''secret'') world0)"
       and rq = "status_request (status_url (JStr ''abc123'')) (bearer_headers (JStr ''tok''))"
       and k = "Suc 0" and r = "json_response 503 ''Service Unavailable'' JNull"
       and now = "fixed_clock 0"]
  by (simp add: get_auth_token_unfold submit_query_unfold script_defs poll_defs)

subsection \<open>Responses that are not successful\<close>

text \<open>
  Claim C2 says that every response with a status code outside 200 to 299 makes the
  operation raise. The script tests \<^verbatim>\<open>response.ok\<close>, which the requests library makes false
  only for the codes 400 to 599. A response with the code 300 (Multiple Choices, which
  carries a body and is not followed as a redirect) passes the test: \<open>get_auth_token\<close>
  returns the token of its body and the run goes on to submit and to poll.
\<close>

theorem non_2xx_response_may_pass:
  "\<not> (200 \<le> status_code (json_response 300 ''Multiple Choices'' (JObj [(''access_token'', JStr ''tok'')])) \<and>
       status_code (json_response 300 ''Multiple Choices'' (JObj [(''access_token'', JStr ''tok'')])) < 300) \<and>
   get_auth_token (always (Inr (json_response 300 ''Multiple Choices'' (JObj [(''access_token'', JStr ''tok'')]))))
     ''id'' ''secret'' world0 =
     (Inr (JStr ''tok''), logged (token_request ''id'' ''secret'') world0) \<and>
   main (always (Inr (json_response 300 ''Multiple Choices'' (JObj [(''access_token'', JStr ''tok'')]))))
     (fixed_clock 0) ''id'' ''secret'' world0 =
     Some (Inr (),
           \<lparr>trace = [Request (token_request ''id'' ''secret''),
                     Request (submit_request (bearer_headers (JStr ''tok''))),
                     Request (status_request (status_url (JStr []))
                                (bearer_headers (JStr ''tok'')))],
            files = Map.empty\<rparr>)"
proof -
  let ?r = "json_response 300 ''Multiple Choices'' (JObj [(''access_token'', JStr ''tok'')])"
  let ?net = "always (Inr ?r)"
  let ?sa = "logged (token_request ''id'' ''secret'') world0"
  let ?sb = "logged (submit_request (bearer_headers (JStr ''tok''))) ?sa"
  let ?rq = "status_request (status_url (JStr [])) (bearer_headers (JStr ''tok''))"
  have a: "get_auth_token ?net ''id'' ''secret'' world0 = (Inr (JStr ''tok''), ?sa)"
    by (simp add: get_auth_token_unfold script_defs reply_field_def ok_def)
  have b: "submit_query ?net (JStr ''tok'') (bearer_headers (JStr ''tok'')) ?sa = (Inr (JStr []), ?sb)"
    by (simp add: submit_query_unfold script_defs reply_field_def ok_def)
  have st: "polled_status (?net (trace (rounds 0 ?rq ?sb)) ?rq) = Inr (JStr ''NO_STATUS_RETURNED'')"
    by (simp add: script_defs polled_status_def response_status_def json_loads_def reply_field_def ok_def)
  then have "\<not> pending_reply (?net (trace (rounds 0 ?rq ?sb)) ?rq)"
    by (rule not_pending_status) (simp add: pending_JStr)
  with monitor_after_rounds [of 0 ?net "JStr []" "bearer_headers (JStr ''tok'')" ?sb] st
  have m: "monitor_query_status ?net (JStr []) (bearer_headers (JStr ''tok'')) ?sb =
      Some (Inr False, logged ?rq ?sb)"
    by simp
  from a b m have "main ?net (fixed_clock 0) ''id'' ''secret'' world0 = Some (Inr (), logged ?rq ?sb)"
    by (rule main_not_completed)
  with a show ?thesis
    by (simp add: script_defs logged_def)
qed

text \<open>
  Claim C2, amended. For every response with a status code from 400 to 599 to the token,
  submit or status request, the operation raises a \<^verbatim>\<open>RuntimeError\<close> that carries the reason
  phrase of the response, and the run ends with that error right after the failing
  request: no later step executes.
\<close>

theorem http_error_aborts_run:
  assumes "400 \<le> status_code r" and "status_code r < 600"
    and "err = RuntimeError (''API request failed: '' @ reason r)"
    and "rq = status_request (status_url q) (bearer_headers token)"
  shows "(net (trace s) (token_request client_id client_secret) = Inr r \<longrightarrow>
            get_auth_token net client_id client_secret s =
              (Inl err, logged (token_request client_id client_secret) s) \<and>
            main net now client_id client_secret s =
              Some (Inl err, logged (token_request client_id client_secret) s)) \<and>
         (get_auth_token net client_id client_secret s = (Inr token, s_auth) \<and>
          net (trace s_auth) (submit_request (bearer_headers token)) = Inr r \<longrightarrow>
            submit_query net token (bearer_headers token) s_auth =
              (Inl err, logged (submit_request (bearer_headers token)) s_auth) \<and>
            main net now client_id client_secret s =
              Some (Inl err, logged (submit_request (bearer_headers token)) s_auth)) \<and>
         (get_auth_token net client_id client_secret s = (Inr token, s_auth) \<and>
          submit_query net token (bearer_headers token) s_auth = (Inr q, s_sub) \<and>
          (\<forall>i<k. pending_reply (net (trace (rounds i rq s_sub)) rq)) \<and>
          net (trace (rounds k rq s_sub)) rq = Inr r \<longrightarrow>
            monitor_query_status net q (bearer_headers token) s_sub =
              Some (Inl err, logged rq (rounds k rq s_sub)) \<and>
            main net now client_id client_secret s =
              Some (Inl err, logged rq (rounds k rq s_sub)))"
proof -
  from assms(1,2) have nok: "\<not> ok r" by (simp add: ok_def)
  have part1: "get_auth_token net client_id client_secret s =
              (Inl err, logged (token_request client_id client_secret) s) \<and>
            main net now client_id client_secret s =
              Some (Inl err, logged (token_request client_id client_secret) s)"
    if "net (trace s) (token_request client_id client_secret) = Inr r"
  proof -
    from that nok assms(3) have a: "get_auth_token net client_id client_secret s =
        (Inl err, logged (token_request client_id client_secret) s)"
      by (simp add: get_auth_token_unfold reply_field_not_ok)
    then have "main net now client_id client_secret s =
        Some (Inl err, logged (token_request client_id client_secret) s)"
      by (rule main_token_error)
    with a show ?thesis by simp
  qed
  have part2: "submit_query net token (bearer_headers token) s_auth =
              (Inl err, logged (submit_request (bearer_headers token)) s_auth) \<and>
            main net now client_id client_secret s =
              Some (Inl err, logged (submit_request (bearer_headers token)) s_auth)"
    if t: "get_auth_token net client_id client_secret s = (Inr token, s_auth)"
      and r: "net (trace s_auth) (submit_request (bearer_headers token)) = Inr r"
  proof -
    from r nok assms(3) have b: "submit_query net token (bearer_headers token) s_auth =
        (Inl err, logged (submit_request (bearer_headers token)) s_auth)"
      by (simp add: submit_query_unfold reply_field_not_ok)
    with t have "main net now client_id client_secret s =
        Some (Inl err, logged (submit_request (bearer_headers token)) s_auth)"
      by (rule main_submit_error)
    with b show ?thesis by simp
  qed
  have part3: "monitor_query_status net q (bearer_headers token) s_sub =
              Some (Inl err, logged rq (rounds k rq s_sub)) \<and>
            main net now client_id client_secret s =
              Some (Inl err, logged rq (rounds k rq s_sub))"
    if t: "get_auth_token net client_id client_secret s = (Inr token, s_auth)"
      and q: "submit_query net token (bearer_headers token) s_auth = (Inr q, s_sub)"
      and p: "\<forall>i<k. pending_reply (net (trace (rounds i rq s_sub)) rq)"
      and r: "net (trace (rounds k rq s_sub)) rq = Inr r"
  proof -
    from r nok assms(3) have st: "polled_status (net (trace (rounds k rq s_sub)) rq) = Inl err"
      by (simp add: polled_status_def)
    then have "\<not> pending_reply (net (trace (rounds k rq s_sub)) rq)"
      by (rule not_pending_error)
    with assms(4) p have "monitor_query_status net q (bearer_headers token) s_sub =
        Some (case polled_status (net (trace (rounds k rq s_sub)) rq) of
                Inl e \<Rightarrow> Inl e | Inr status \<Rightarrow> Inr (status = JStr ''COMPLETED''),
              logged rq (rounds k rq s_sub))"
      using monitor_after_rounds [of k net q "bearer_headers token" s_sub] by simp
    with st have m: "monitor_query_status net q (bearer_headers token) s_sub =
        Some (Inl err, logged rq (rounds k rq s_sub))" by simp
    from t q m have "main net now client_id client_secret s =
        Some (Inl err, logged rq (rounds k rq s_sub))"
      by (rule main_monitor_error)
    with m show ?thesis by simp
  qed
  from part1 part2 part3 show ?thesis by blast
qed

theorem http_error_aborts_run_witness:
  "main (scripted [Inr (json_response 401 ''Unauthorized'' JNull)])
     (fixed_clock 0) ''id'' ''secret'' world0 =
     Some (Inl (RuntimeError ''API request failed: Unauthorized''),
           logged (token_request ''id'' ''secret'') world0) \<and>
   main (scripted [Inr (token_response ''tok''), Inr (json_response 400 ''Bad Request'' JNull)])
     (fixed_clock 0) ''id'' ''secret'' world0 =
     Some (Inl (RuntimeError ''API request failed: Bad Request''),
           logged (submit_request (bearer_headers (JStr ''tok'')))
             (logged (token_request ''id'' ''secret'') world0)) \<and>
   main (scripted [Inr (token_response ''tok''), Inr (query_response ''abc123''),
                   Inr (status_response ''RUNNING''),
                   Inr (json_response 500 ''Internal Server Error'' JNull)])
     (fixed_clock 0) ''id'' ''secret'' world0 =
     Some (Inl (RuntimeError ''API request failed: Internal Server Error''),
           logged (status_request (status_url (JStr ''abc123'')) (bearer_headers (JStr ''tok'')))
             (rounds (Suc 0)
                (status_request (status_url (JStr ''abc123'')) (bearer_headers (JStr ''tok'')))
                (logged (submit_request (bearer_headers (JStr ''tok'')))
                   (logged (token_request ''id'' ''secret'') world0))))"
proof (intro conjI)
  show "main (scripted [Inr (json_response 401 ''Unauthorized'' JNull)])
     (fixed_clock 0) ''id'' ''secret'' world0 =
     Some (Inl (RuntimeError ''API request failed: Unauthorized''),
           logged (token_request ''id'' ''secret'') world0)"
    using http_error_aborts_run
      [where r = "json_response 401 ''Unauthorized'' JNull"
         and err = "RuntimeError ''API request failed: Unauthorized''"
         and rq = "status_request (status_url JNull) (bearer_headers JNull)"
         and q = JNull and token = JNull and s = world0
         and net = "scripted [Inr (json_response 401 ''Unauthorized'' JNull)]"
         and client_id = "''id''" and client_secret = "''secret''" and now = "fixed_clock 0"]
    by (simp add: script_defs)
  show "main (scripted [Inr (token_response ''tok''), Inr (json_response 400 ''Bad Request'' JNull)])
     (fixed_clock 0) ''id'' ''secret'' world0 =
     Some (Inl (RuntimeError ''API request failed: Bad Request''),
           logged (submit_request (bearer_headers (JStr ''tok'')))
             (logged (token_request ''id'' ''secret'') world0))"
    using http_error_aborts_run
      [where r = "json_response 400 ''Bad Request'' JNull"
         and err = "RuntimeError ''API request failed: Bad Request''"
         and rq = "status_request (status_url JNull) (bearer_headers (JStr ''tok''))"
         and q = JNull and token = "JStr ''tok''" and s = world0
         and s_auth = "logged (token_request ''id'' ''secret'') world0"
         and net = "scripted [Inr (token_response ''tok''),
                              Inr (json_response 400 ''Bad Request'' JNull)]"
         and client_id = "''id''" and client_secret = "''secret''" and now = "fixed_clock 0"]
    by (simp add: get_auth_token_unfold script_defs reply_field_def ok_def logged_def)
  show "main (scripted [Inr (token_response ''tok''), Inr (query_response ''abc123''),
                   Inr (status_response ''RUNNING''),
                   Inr (json_response 500 ''Internal Server Error'' JNull)])
     (fixed_clock 0) ''id'' ''secret'' world0 =
     Some (Inl (RuntimeError ''API request failed: Internal Server Error''),
           logged (status_request (status_url (JStr ''abc123'')) (bearer_headers (JStr ''tok'')))
             (rounds (Suc 0)
                (status_request (status_url (JStr ''abc123'')) (bearer_headers (JStr ''tok'')))
                (logged (submit_request (bearer_headers (JStr ''tok'')))
                   (logged (token_request ''id'' ''secret'') world0))))"
    using http_error_aborts_run
      [where r = "json_response 500 ''Internal Server Error'' JNull"
         and err = "RuntimeError ''API request failed: Internal Server Error''"
         and rq = "status_request (status_url (JStr ''abc123'')) (bearer_headers (JStr ''tok''))"
         and q = "JStr ''abc123''" and token = "JStr ''tok''" and s = world0
         and s_auth = "logged (token_request ''id'' ''secret'') world0"
         and s_sub = "logged (submit_request (bearer_headers (JStr ''tok'')))
                        (logged (token_request ''id'' ''secret'') world0)"
         and k = "Suc 0"
         and net = "scripted [Inr (token_response ''tok''), Inr (query_response ''abc123''),
                   Inr (status_response ''RUNNING''),
                   Inr (json_response 500 ''Internal Server Error'' JNull)]"
         and client_id = "''id''" and client_secret = "''secret''" and now = "fixed_clock 0"]
    by (simp add: get_auth_token_unfold submit_query_unfold script_defs poll_defs)
qed

subsection \<open>The Basic-Auth header\<close>

text \<open>
  Claim C9. Round trip: for every client id and client secret, whatever the remote side
  answers, \<open>get_auth_token\<close> sends exactly one request, whose \<^verbatim>\<open>Authorization\<close> header is
  \<^verbatim>\<open>Basic\<close> followed by a credential part, and base64-decoding that credential part yields
  back exactly the client id, a colon and the client secret.
\<close>

theorem basic_auth_round_trip:
  "snd (get_auth_token net client_id client_secret s) =
     s\<lparr>trace := trace s @
        [Request
           \<lparr>rq_method = POST,
            rq_url = [Lit ''https://login.gardin.ag/oauth2/token''],
            rq_headers =
              [(''Authorization'',
                [Lit ''Basic '', Lit (b64encode (client_id @ '':'' @ client_secret))]),
               (''Content-Type'', [Lit ''application/x-www-form-urlencoded''])],
            rq_data = Some (Form [(''grant_type'', ''client_credentials'')])\<rparr>]\<rparr> \<and>
   b64decode (b64encode (client_id @ '':'' @ client_secret)) =
     Some (client_id @ '':'' @ client_secret)"
  by (simp add: get_auth_token_unfold logged_def token_request_def auth_headers_def Let_def
      b64_round_trip)

theorem basic_auth_round_trip_witness:
  "snd (get_auth_token (always (Inl RequestException)) ''id'' ''secret'' world0) =
     \<lparr>trace =
        [Request
           \<lparr>rq_method = POST,
            rq_url = [Lit ''https://login.gardin.ag/oauth2/token''],
            rq_headers =
              [(''Authorization'', [Lit ''Basic '', Lit ''aWQ6c2VjcmV0'']),
               (''Content-Type'', [Lit ''application/x-www-form-urlencoded''])],
            rq_data = Some (Form [(''grant_type'', ''client_credentials'')])\<rparr>],
      files = Map.empty\<rparr> \<and>
   b64decode ''aWQ6c2VjcmV0'' = Some ''id:secret''"
proof -
  have e: "b64encode (''id'' @ '':'' @ ''secret'') = ''aWQ6c2VjcmV0''"
    by code_simp
  from basic_auth_round_trip [of "always (Inl RequestException)" "''id''" "''secret''" world0]
  show ?thesis
    unfolding e by (simp add: world0_def)
qed

subsection \<open>A successful run\<close>

text \<open>
  Claim C8. In a successful run (the token is returned, submit returns a query id, the
  poller ends on \<^verbatim>\<open>COMPLETED\<close>, the fetch returns a signed URI and the download is answered),
  the downloader sends a GET of the signed URI without any header, so without
  authentication, and writes exactly the bytes of the response, unmodified, to the file
  \<^verbatim>\<open>gardin_query_api_results_<t>.csv\<close>, where \<^verbatim>\<open><t>\<close> is the clock in whole seconds as
  \<open>save_results\<close> reads it. The request and the write are the last two events of the run.
\<close>

theorem successful_run_saves_file:
  assumes "get_auth_token net client_id client_secret s = (Inr token, s_auth)"
    and "submit_query net token (bearer_headers token) s_auth = (Inr q, s_sub)"
    and "monitor_query_status net q (bearer_headers token) s_sub = Some (Inr True, s_done)"
    and "download_results net q (bearer_headers token) s_done = (Inr signed_uri, s_uri)"
    and "net (trace s_uri) (file_request signed_uri) = Inr r"
    and "csv_filename = CSV_DOWNLOAD_PATH_PREFIX @ str_int (now (trace s_uri)) @ ''.csv''"
  shows "main net now client_id client_secret s =
           Some (Inr (),
                 \<lparr>trace = trace s_uri @ [Request (file_request signed_uri),
                                         Write csv_filename (content r)],
                  files = (files s_uri)(csv_filename \<mapsto> content r)\<rparr>) \<and>
         file_request signed_uri =
           \<lparr>rq_method = GET, rq_url = [Val signed_uri], rq_headers = [], rq_data = None\<rparr> \<and>
         csv_filename = ''gardin_query_api_results_'' @ str_int (now (trace s_uri)) @ ''.csv''"
proof -
  from assms(1-3) have "main net now client_id client_secret s =
      (case download_results net q (bearer_headers token) s_done of
         (Inl e, s4) \<Rightarrow> Some (Inl e, s4)
       | (Inr signed_uri, s4) \<Rightarrow> Some (save_results net now signed_uri s4))"
    by (rule main_completed)
  with assms(4) have "main net now client_id client_secret s =
      Some (save_results net now signed_uri s_uri)"
    by simp
  with assms(5,6) show ?thesis
    by (simp add: save_results_unfold file_request_def CSV_DOWNLOAD_PATH_PREFIX_def)
qed

theorem successful_run_saves_file_witness:
  "main (scripted [Inr (token_response ''tok''), Inr (query_response ''abc123''),
                   Inr (status_response ''IN_PROGRESS''), Inr (status_response ''COMPLETED''),
                   Inr (uri_response ''https://signed/abc123.csv''),
                   Inr (file_response ''a,b'')])
     (fixed_clock 1700000000) ''id'' ''secret'' world0 =
   Some (Inr (),
         \<lparr>trace = [Request (token_request ''id'' ''secret''),
                   Request (submit_request (bearer_headers (JStr ''tok''))),
                   Request (status_request (status_url (JStr ''abc123''))
                              (bearer_headers (JStr ''tok''))),
                   Sleep 10,
                   Request (status_request (status_url (JStr ''abc123''))
                              (bearer_headers (JStr ''tok''))),
                   Request (download_request (JStr ''abc123'') (bearer_headers (JStr ''tok''))),
                   Request (file_request (JStr ''https://signed/abc123.csv'')),
                   Write ''gardin_query_api_results_1700000000.csv'' ''a,b''],
          files = [''gardin_query_api_results_1700000000.csv'' \<mapsto> ''a,b'']\<rparr>)"
proof -
  let ?net = "scripted [Inr (token_response ''tok''), Inr (query_response ''abc123''),
                   Inr (status_response ''IN_PROGRESS''), Inr (status_response ''COMPLETED''),
                   Inr (uri_response ''https://signed/abc123.csv''),
                   Inr (file_response ''a,b'')]"
  let ?hs = "bearer_headers (JStr ''tok'')"
  let ?rq = "status_request (status_url (JStr ''abc123'')) ?hs"
  let ?sa = "logged (token_request ''id'' ''secret'') world0"
  let ?sb = "logged (submit_request ?hs) ?sa"
  let ?sc = "logged ?rq (rounds (Suc 0) ?rq ?sb)"
  let ?sd = "logged (download_request (JStr ''abc123'') ?hs) ?sc"
  have a: "get_auth_token ?net ''id'' ''secret'' world0 = (Inr (JStr ''tok''), ?sa)"
    by (simp add: get_auth_token_unfold script_defs reply_field_def ok_def)
  have b: "submit_query ?net (JStr ''tok'') ?hs ?sa = (Inr (JStr ''abc123''), ?sb)"
    by (simp add: submit_query_unfold script_defs reply_field_def ok_def logged_def)
  have p: "\<forall>i<Suc 0. pending_reply (?net (trace (rounds i ?rq ?sb)) ?rq)"
    by (simp add: script_defs poll_defs)
  have st: "polled_status (?net (trace (rounds (Suc 0) ?rq ?sb)) ?rq) = Inr (JStr ''COMPLETED'')"
    by (simp add: script_defs poll_defs)
  then have np: "\<not> pending_reply (?net (trace (rounds (Suc 0) ?rq ?sb)) ?rq)"
    by (rule not_pending_status) (simp add: pending_JStr)
  from monitor_after_rounds [of "Suc 0" ?net "JStr ''abc123''" ?hs ?sb] p np st
  have m: "monitor_query_status ?net (JStr ''abc123'') ?hs ?sb = Some (Inr True, ?sc)"
    by simp
  have d: "download_results ?net (JStr ''abc123'') ?hs ?sc =
      (Inr (JStr ''https://signed/abc123.csv''), ?sd)"
    by (simp add: download_results_unfold script_defs reply_field_def ok_def logged_def sleep_def)
  have f: "?net (trace ?sd) (file_request (JStr ''https://signed/abc123.csv'')) =
      Inr (file_response ''a,b'')"
    by (simp add: script_defs logged_def sleep_def)
  have n: "''gardin_query_api_results_1700000000.csv'' =
      CSV_DOWNLOAD_PATH_PREFIX @ str_int (fixed_clock 1700000000 (trace ?sd)) @ ''.csv''"
    by (simp add: CSV_DOWNLOAD_PATH_PREFIX_def fixed_clock_def str_int_example)
  note t = successful_run_saves_file
    [where net = ?net and client_id = "''id''" and client_secret = "''secret''" and s = world0
       and token = "JStr ''tok''" and s_auth = ?sa and q = "JStr ''abc123''" and s_sub = ?sb
       and s_done = ?sc and signed_uri = "JStr ''https://signed/abc123.csv''" and s_uri = ?sd
       and r = "file_response ''a,b''" and now = "fixed_clock 1700000000"
       and csv_filename = "''gardin_query_api_results_1700000000.csv''", OF a b m d f n]
  from t show ?thesis
    by (simp add: script_defs logged_def sleep_def)
qed

end
